theory Spec2Isabelle
  imports Main "HOL-Library.Sublist"
begin

section \<open>TSDB test-suite databases and TSQL queries: a shallow embedding\<close>

text \<open>
  The definitions below follow \<^verbatim>\<open>delphin/tsdb.py\<close> and \<^verbatim>\<open>delphin/tsql.py\<close>.
  Python strings are lists of characters; a character is read as the code point of the
  same number (0 to 255).  Exceptions are values of the type \<open>error\<close>; a function
  that can raise returns \<open>error + 'a\<close> with \<open>Inl\<close> for the exception.
\<close>

subsection \<open>Exceptions\<close>

datatype error =
    TSDBError
  | TSDBSchemaError
  | TSQLSyntaxError
  | AttributeError
  | IndexError
  | KeyError
  | TypeError
  | ValueError
  | OSError
  | StopIteration

subsection \<open>Constants\<close>

abbreviation backslash :: char where
  "backslash \<equiv> CHR 0x5C"

abbreviation newline :: char where
  "newline \<equiv> CHR 0x0A"

definition FIELD_DELIMITER :: char where
  "FIELD_DELIMITER = CHR ''@''"

definition TSDB_CODED_ATTRIBUTES :: "string \<rightharpoonup> string" where
  "TSDB_CODED_ATTRIBUTES =
     map_of [(''i-wf'', ''1''), (''i-difficulty'', ''1''), (''polarity'', ''-1'')]"

subsection \<open>Python string methods\<close>

text \<open>
  \<^verbatim>\<open>s.replace(old, new)\<close>: the occurrences of \<open>old\<close> are found from the left and do
  not overlap.  With an empty \<open>old\<close>, Python puts \<open>new\<close> before every character and
  at the end.
\<close>

function replace_nonempty :: "string \<Rightarrow> string \<Rightarrow> string \<Rightarrow> string" where
  "replace_nonempty [] old new = []"
| "replace_nonempty (c # cs) old new =
     (if old \<noteq> [] \<and> prefix old (c # cs)
      then new @ replace_nonempty (drop (length old) (c # cs)) old new
      else c # replace_nonempty cs old new)"
  by pat_completeness auto
termination
  by (relation "measure (\<lambda>(s, old, new). length s)") auto

definition str_replace :: "string \<Rightarrow> string \<Rightarrow> string \<Rightarrow> string" where
  "str_replace s old new =
     (if old = [] then new @ concat (map (\<lambda>c. c # new) s)
      else replace_nonempty s old new)"

text \<open>
  Character classes.  \<open>is_space\<close> is \<^verbatim>\<open>str.isspace\<close>, which \<^verbatim>\<open>strip\<close>, \<^verbatim>\<open>split\<close> and
  the pattern \<^verbatim>\<open>\s\<close> use; \<open>is_word\<close> is the pattern \<^verbatim>\<open>\w\<close> (alphanumeric or underscore);
  \<open>is_digit\<close> is the pattern \<^verbatim>\<open>[0-9]\<close>; \<open>is_linebreak\<close> are the boundaries of
  \<^verbatim>\<open>splitlines\<close> other than the pair carriage return, line feed.
\<close>

definition is_space :: "char \<Rightarrow> bool" where
  "is_space c \<longleftrightarrow>
     (let n = of_char c :: nat
      in (9 \<le> n \<and> n \<le> 13) \<or> (28 \<le> n \<and> n \<le> 32) \<or> n = 133 \<or> n = 160)"

definition is_digit :: "char \<Rightarrow> bool" where
  "is_digit c \<longleftrightarrow> (let n = of_char c :: nat in 48 \<le> n \<and> n \<le> 57)"

definition is_word :: "char \<Rightarrow> bool" where
  "is_word c \<longleftrightarrow>
     (let n = of_char c :: nat
      in (48 \<le> n \<and> n \<le> 57) \<or> (65 \<le> n \<and> n \<le> 90) \<or> n = 95 \<or> (97 \<le> n \<and> n \<le> 122)
         \<or> n = 170 \<or> n = 178 \<or> n = 179 \<or> n = 181 \<or> n = 185 \<or> n = 186
         \<or> (188 \<le> n \<and> n \<le> 190) \<or> (192 \<le> n \<and> n \<le> 214) \<or> (216 \<le> n \<and> n \<le> 246)
         \<or> 248 \<le> n)"

definition is_linebreak :: "char \<Rightarrow> bool" where
  "is_linebreak c \<longleftrightarrow>
     (let n = of_char c :: nat
      in (10 \<le> n \<and> n \<le> 13) \<or> (28 \<le> n \<and> n \<le> 30) \<or> n = 133)"

text \<open>\<^verbatim>\<open>s.lower()\<close> on the code points 0 to 255.\<close>

definition lower_char :: "char \<Rightarrow> char" where
  "lower_char c =
     (let n = of_char c :: nat
      in if (65 \<le> n \<and> n \<le> 90) \<or> (192 \<le> n \<and> n \<le> 214) \<or> (216 \<le> n \<and> n \<le> 222)
         then char_of (n + 32) else c)"

definition lower :: "string \<Rightarrow> string" where
  "lower s = map lower_char s"

text \<open>\<^verbatim>\<open>s.strip()\<close>, \<^verbatim>\<open>s.rstrip('\n')\<close> and \<^verbatim>\<open>s.ljust(width)\<close>.\<close>

definition strip :: "string \<Rightarrow> string" where
  "strip s = rev (dropWhile is_space (rev (dropWhile is_space s)))"

definition rstrip_newline :: "string \<Rightarrow> string" where
  "rstrip_newline s = rev (dropWhile (\<lambda>c. c = newline) (rev s))"

definition ljust :: "string \<Rightarrow> nat \<Rightarrow> string" where
  "ljust s width = s @ replicate (width - length s) CHR '' ''"

text \<open>\<^verbatim>\<open>sep.join(parts)\<close>.\<close>

fun join :: "string \<Rightarrow> string list \<Rightarrow> string" where
  "join sep [] = []"
| "join sep [x] = x"
| "join sep (x # y # ys) = x @ sep @ join sep (y # ys)"

text \<open>
  \<^verbatim>\<open>s.split(sep)\<close> for a separator of one character: every occurrence splits, and empty
  pieces are kept, so the result is never empty.
\<close>

fun split_on :: "char \<Rightarrow> string \<Rightarrow> string list" where
  "split_on sep [] = [[]]"
| "split_on sep (c # cs) =
     (if c = sep then [] # split_on sep cs
      else (case split_on sep cs of
              [] \<Rightarrow> [[c]]
            | p # ps \<Rightarrow> (c # p) # ps))"

text \<open>\<^verbatim>\<open>s.split()\<close>: the pieces between runs of whitespace; no piece is empty.\<close>

function split_ws :: "string \<Rightarrow> string list" where
  "split_ws s =
     (case dropWhile is_space s of
        [] \<Rightarrow> []
      | c # cs \<Rightarrow> takeWhile (\<lambda>x. \<not> is_space x) (c # cs)
                 # split_ws (dropWhile (\<lambda>x. \<not> is_space x) cs))"
  by pat_completeness auto
termination
proof (relation "measure length", goal_cases)
  case 1
  show ?case by simp
next
  case (2 s c cs)
  have "length (dropWhile (\<lambda>x. \<not> is_space x) cs) \<le> length cs"
    by (rule length_dropWhile_le)
  moreover have "length (c # cs) \<le> length s"
    using 2 length_dropWhile_le [of is_space s] by simp
  ultimately show ?case by simp
qed

declare split_ws.simps [simp del]

text \<open>
  \<^verbatim>\<open>s.splitlines()\<close>: a line ends at a line boundary, carriage return followed by line
  feed counting as one; the boundaries are dropped and the text after the last boundary
  is a line only when it is not empty.  \<open>splitlines_acc\<close> carries the characters of the
  line being read, in reverse.
\<close>

fun splitlines_acc :: "string \<Rightarrow> string \<Rightarrow> string list" where
  "splitlines_acc acc [] = (if acc = [] then [] else [rev acc])"
| "splitlines_acc acc (c # cs) =
     (if c = CHR 0x0D \<and> cs \<noteq> [] \<and> hd cs = newline
        then rev acc # splitlines_acc [] (tl cs)
      else if is_linebreak c then rev acc # splitlines_acc [] cs
      else splitlines_acc (c # acc) cs)"

definition splitlines :: "string \<Rightarrow> string list" where
  "splitlines s = splitlines_acc [] s"

subsection \<open>Regular expressions\<close>

text \<open>
  The patterns of the source are written as terms of \<open>regex\<close> and matched the way
  Python's \<^verbatim>\<open>re.match\<close> does: from the start of the text, by backtracking, the first
  alternative first and every repetition greedy.  \<open>Rep lo hi r\<close> is \<^verbatim>\<open>r{lo,hi}\<close>, with
  \<open>hi = None\<close> for no upper bound, so \<^verbatim>\<open>r*\<close>, \<^verbatim>\<open>r+\<close> and \<^verbatim>\<open>r?\<close> are
  \<open>Rep 0 None r\<close>, \<open>Rep 1 None r\<close> and \<open>Rep 0 (Some 1) r\<close>.  \<open>Group n r\<close> is the named
  group \<^verbatim>\<open>(?P<n>r)\<close>; \<open>Eol\<close> is \<^verbatim>\<open>$\<close>, the end of the text or the position before a
  final line feed.  A match is the list of its groups, the last one captured first.
\<close>

datatype cclass =
    Chr char
  | NotChr char
  | Range char char
  | Digit
  | WordChar
  | Space
  | NotSpace
  | AnyChar

fun in_class :: "cclass \<Rightarrow> char \<Rightarrow> bool" where
  "in_class (Chr x) c = (c = x)"
| "in_class (NotChr x) c = (c \<noteq> x)"
| "in_class (Range lo hi) c = ((of_char lo :: nat) \<le> of_char c \<and> (of_char c :: nat) \<le> of_char hi)"
| "in_class Digit c = is_digit c"
| "in_class WordChar c = is_word c"
| "in_class Space c = is_space c"
| "in_class NotSpace c = (\<not> is_space c)"
| "in_class AnyChar c = (c \<noteq> newline)"

datatype regex =
    Cls cclass
  | Seq regex regex
  | Alt regex regex
  | Rep nat "nat option" regex
  | Group string regex
  | Eps
  | Eol

type_synonym groups = "(string \<times> string) list"

type_synonym 'a matcher = "string \<Rightarrow> groups \<Rightarrow> (string \<Rightarrow> groups \<Rightarrow> 'a option) \<Rightarrow> 'a option"

text \<open>
  \<open>rep_match\<close> runs a repetition: \<open>fuel\<close> bounds the number of rounds (the length of
  the text is enough, since a round that reads nothing ends the repetition), \<open>lo\<close> is the
  number of rounds still required and \<open>hi\<close> the number still allowed.
\<close>

fun rep_match :: "nat \<Rightarrow> 'a matcher \<Rightarrow> nat \<Rightarrow> nat option \<Rightarrow> 'a matcher" where
  "rep_match 0 f lo hi s g k = (if lo = 0 then k s g else None)"
| "rep_match (Suc fuel) f lo hi s g k =
     (if hi = Some 0 then (if lo = 0 then k s g else None)
      else (case f s g (\<lambda>s' g'.
                     if length s' < length s \<or> 0 < lo
                     then rep_match fuel f (lo - 1) (map_option (\<lambda>h. h - 1) hi) s' g' k
                     else None) of
              Some x \<Rightarrow> Some x
            | None \<Rightarrow> if lo = 0 then k s g else None))"

primrec rmatch :: "regex \<Rightarrow> 'a matcher" where
  "rmatch (Cls cl) s g k =
     (case s of [] \<Rightarrow> None | c # cs \<Rightarrow> if in_class cl c then k cs g else None)"
| "rmatch (Seq r1 r2) s g k = rmatch r1 s g (\<lambda>s' g'. rmatch r2 s' g' k)"
| "rmatch (Alt r1 r2) s g k =
     (case rmatch r1 s g k of Some x \<Rightarrow> Some x | None \<Rightarrow> rmatch r2 s g k)"
| "rmatch (Rep lo hi r) s g k = rep_match (length s + lo) (rmatch r) lo hi s g k"
| "rmatch (Group n r) s g k =
     rmatch r s g (\<lambda>s' g'. k s' ((n, take (length s - length s') s) # g'))"
| "rmatch Eps s g k = k s g"
| "rmatch Eol s g k = (if s = [] \<or> s = [newline] then k s g else None)"

text \<open>\<^verbatim>\<open>re.match(pattern, s)\<close> and \<^verbatim>\<open>m.group(n)\<close>.\<close>

definition re_match :: "regex \<Rightarrow> string \<Rightarrow> groups option" where
  "re_match r s = rmatch r s [] (\<lambda>s' g. Some g)"

definition group :: "groups \<Rightarrow> string \<Rightarrow> string option" where
  "group m n = map_of m n"

text \<open>Abbreviations for the pattern syntax.\<close>

definition Lit :: "string \<Rightarrow> regex" where
  "Lit s = foldr (\<lambda>c r. Seq (Cls (Chr c)) r) s Eps"

definition Star :: "regex \<Rightarrow> regex" where
  "Star r = Rep 0 None r"

definition Plus :: "regex \<Rightarrow> regex" where
  "Plus r = Rep 1 None r"

definition Opt :: "regex \<Rightarrow> regex" where
  "Opt r = Rep 0 (Some 1) r"

definition Seqs :: "regex list \<Rightarrow> regex" where
  "Seqs rs = foldr Seq rs Eps"

subsection \<open>Escaping\<close>

definition escape :: "string \<Rightarrow> string" where
  "escape string =
     str_replace
       (str_replace
          (str_replace string [backslash] [backslash, backslash])
          [newline] [backslash, CHR ''n''])
       [FIELD_DELIMITER] [backslash, CHR ''s'']"

definition unescape :: "string \<Rightarrow> string" where
  "unescape string =
     str_replace
       (str_replace
          (str_replace string [backslash, backslash] [backslash])
          [backslash, CHR ''n''] [newline])
       [backslash, CHR ''s''] [FIELD_DELIMITER]"

subsection \<open>Fields\<close>

record Field =
  name :: string
  datatype_tag :: string
  flags :: "string list"
  comment :: "string option"
  is_key :: bool
  default :: string

text \<open>
  \<^verbatim>\<open>Field.__init__\<close>.  The loop over the flags sets \<open>is_key\<close> as soon as one flag is
  \<^verbatim>\<open>:key\<close> or \<^verbatim>\<open>:primary\<close> or starts with \<^verbatim>\<open>:foreign\<close>; \<^verbatim>\<open>flags or []\<close> reads a
  missing argument as the empty list.
\<close>

definition key_flag :: "string \<Rightarrow> bool" where
  "key_flag flag \<longleftrightarrow> flag = '':key'' \<or> flag = '':primary'' \<or> prefix '':foreign'' flag"

definition Field_init ::
    "string \<Rightarrow> string \<Rightarrow> string list option \<Rightarrow> string option \<Rightarrow> Field" where
  "Field_init nm dt fl cm =
     \<lparr> name = nm,
       datatype_tag = dt,
       flags = (case fl of None \<Rightarrow> [] | Some fs \<Rightarrow> fs),
       comment = cm,
       is_key = list_ex key_flag (case fl of None \<Rightarrow> [] | Some fs \<Rightarrow> fs),
       default =
         (case TSDB_CODED_ATTRIBUTES nm of
            Some d \<Rightarrow> d
          | None \<Rightarrow> if dt = '':integer'' then ''-1'' else '''') \<rparr>"

text \<open>\<^verbatim>\<open>Field.__eq__\<close>: name, datatype and flags; comment and default are not compared.\<close>

definition Field_eq :: "Field \<Rightarrow> Field \<Rightarrow> bool" where
  "Field_eq f g \<longleftrightarrow>
     name f = name g \<and> datatype_tag f = datatype_tag g \<and> flags f = flags g"

subsection \<open>Schemas\<close>

text \<open>
  A schema is a Python dictionary from table names to field lists.  Dictionaries keep
  the order of insertion, so the model is an association list; its keys are distinct
  whenever it models a dictionary.
\<close>

type_synonym Schema = "(string \<times> Field list) list"

text \<open>
  \<^verbatim>\<open>Field.__str__\<close>: two spaces, then name, datatype and flags separated by single
  spaces; a comment that is neither \<^verbatim>\<open>None\<close> nor empty follows \<^verbatim>\<open>#\<close> after the line is
  padded to 40 characters.
\<close>

definition Field_str :: "Field \<Rightarrow> string" where
  "Field_str f =
     (let s = ''  '' @ join '' '' ([name f, datatype_tag f] @ flags f)
      in case comment f of
           None \<Rightarrow> s
         | Some c \<Rightarrow> if c = [] then s else ljust s 40 @ ''# '' @ c)"

definition format_table :: "string \<times> Field list \<Rightarrow> string" where
  "format_table t = fst t @ '':'' @ [newline] @ join [newline] (map Field_str (snd t))"

definition format_schema :: "Schema \<Rightarrow> string" where
  "format_schema schema = join [newline, newline] (map format_table schema)"

text \<open>
  The two patterns of \<^verbatim>\<open>_parse_schema\<close>:
  \<^verbatim>\<open>^(?P<table>\w.+):$\<close> and
  \<^verbatim>\<open>\s*(?P<name>\S+)(\s+(?P<flags>[^#]+))?(\s*#\s*(?P<comment>.*)$)?\<close>.
  The leading \<^verbatim>\<open>^\<close> is left out: \<^verbatim>\<open>re.match\<close> only matches at the start of the text.
\<close>

definition table_re :: regex where
  "table_re =
     Seqs [Group ''table'' (Seq (Cls WordChar) (Plus (Cls AnyChar))), Cls (Chr CHR '':''), Eol]"

definition field_re :: regex where
  "field_re =
     Seqs [Star (Cls Space),
           Group ''name'' (Plus (Cls NotSpace)),
           Opt (Seq (Plus (Cls Space)) (Group ''flags'' (Plus (Cls (NotChr CHR ''#''))))),
           Opt (Seqs [Star (Cls Space), Cls (Chr CHR ''#''), Star (Cls Space),
                      Group ''comment'' (Star (Cls AnyChar)), Eol])]"

text \<open>
  The state of the loop of \<^verbatim>\<open>_parse_schema\<close>.  In the source \<^verbatim>\<open>current_fields\<close> is the
  very list that was appended to \<^verbatim>\<open>tables\<close> with the current table, and fields are
  appended to it only while \<^verbatim>\<open>current_table\<close> is not empty, that is after a header was
  read; so appending a field changes the last entry of \<open>tables\<close>.
\<close>

record schema_state =
  tables :: Schema
  seen :: "string set"
  current_table :: string

definition append_field :: "Schema \<Rightarrow> Field \<Rightarrow> Schema" where
  "append_field tbls f =
     (case rev tbls of
        [] \<Rightarrow> []
      | (n, fs) # earlier \<Rightarrow> rev earlier @ [(n, fs @ [f])])"

text \<open>
  One round of the loop, on one line.  \<^verbatim>\<open>field_m.group('flags').split()\<close> raises
  \<^verbatim>\<open>AttributeError\<close> when the group took no part in the match, and \<^verbatim>\<open>flags.pop(0)\<close>
  raises \<^verbatim>\<open>IndexError\<close> when the group holds nothing but whitespace.
\<close>

definition parse_schema_line :: "schema_state \<Rightarrow> string \<Rightarrow> error + schema_state" where
  "parse_schema_line st raw =
     (let line = strip raw;
          table_m = re_match table_re line;
          field_m = re_match field_re line
      in case table_m of
           Some tm \<Rightarrow>
             (let table_name = the (group tm ''table'')
              in if table_name \<in> seen st then Inl TSDBSchemaError
                 else Inr \<lparr> tables = tables st @ [(table_name, [])],
                           seen = insert table_name (seen st),
                           current_table = table_name \<rparr>)
         | None \<Rightarrow>
             (case field_m of
                Some fm \<Rightarrow>
                  if current_table st \<noteq> [] then
                    (case group fm ''flags'' of
                       None \<Rightarrow> Inl AttributeError
                     | Some fl \<Rightarrow>
                         (case split_ws fl of
                            [] \<Rightarrow> Inl IndexError
                          | dt # rest \<Rightarrow>
                              Inr (st \<lparr> tables :=
                                     append_field (tables st)
                                       (Field_init (the (group fm ''name'')) dt (Some rest)
                                          (group fm ''comment'')) \<rparr>)))
                  else if line \<noteq> [] then Inl TSDBSchemaError
                  else Inr st
              | None \<Rightarrow> if line \<noteq> [] then Inl TSDBSchemaError else Inr st))"

fun parse_schema_lines :: "schema_state \<Rightarrow> string list \<Rightarrow> error + schema_state" where
  "parse_schema_lines st [] = Inr st"
| "parse_schema_lines st (l # ls) =
     (case parse_schema_line st l of
        Inl e \<Rightarrow> Inl e
      | Inr st' \<Rightarrow> parse_schema_lines st' ls)"

definition parse_schema :: "string \<Rightarrow> error + Schema" where
  "parse_schema s =
     (case parse_schema_lines \<lparr> tables = [], seen = {}, current_table = [] \<rparr> (splitlines s) of
        Inl e \<Rightarrow> Inl e
      | Inr st \<Rightarrow> Inr (tables st))"

subsection \<open>Values\<close>

text \<open>
  A column value is \<^verbatim>\<open>None\<close>, a string, an integer, a float or a \<^verbatim>\<open>datetime\<close>.  Floats are
  values of a type parameter; what the interpreter provides around them, and the clock,
  are the fields of \<open>env\<close>: \<^verbatim>\<open>datetime.now()\<close>, \<^verbatim>\<open>float(s)\<close> (\<open>None\<close> when it raises
  \<^verbatim>\<open>ValueError\<close>) and \<^verbatim>\<open>str(x)\<close> on a float.
\<close>

record datetime =
  year :: nat
  month :: nat
  day :: nat
  hour :: nat
  minute :: nat
  second :: nat
  microsecond :: nat

datatype 'f Value =
    VNone
  | VStr string
  | VInt int
  | VFloat 'f
  | VDate datetime

record 'f env =
  now :: datetime
  float_of_str :: "string \<Rightarrow> 'f option"
  str_of_float :: "'f \<Rightarrow> string"

definition MONTHS_name :: "nat \<rightharpoonup> string" where
  "MONTHS_name =
     map_of [(1, ''jan''), (2, ''feb''), (3, ''mar''), (4, ''apr''), (5, ''may''), (6, ''jun''),
             (7, ''jul''), (8, ''aug''), (9, ''sep''), (10, ''oct''), (11, ''nov''), (12, ''dec'')]"

definition MONTHS_number :: "string \<rightharpoonup> nat" where
  "MONTHS_number =
     map_of [(''jan'', 1), (''feb'', 2), (''mar'', 3), (''apr'', 4), (''may'', 5), (''jun'', 6),
             (''jul'', 7), (''aug'', 8), (''sep'', 9), (''oct'', 10), (''nov'', 11), (''dec'', 12)]"

text \<open>
  Decimal numerals: \<^verbatim>\<open>str(n)\<close> and \<^verbatim>\<open>int(s)\<close>.  \<^verbatim>\<open>int\<close> strips whitespace, reads an
  optional sign and then digits, between which single underscores may stand.  The bound
  that recent interpreters put on the number of digits is not modelled.
\<close>

definition digit_char :: "nat \<Rightarrow> char" where
  "digit_char d = char_of (48 + d)"

definition digit_val :: "char \<Rightarrow> nat" where
  "digit_val c = of_char c - 48"

function str_of_nat :: "nat \<Rightarrow> string" where
  "str_of_nat n =
     (if n < 10 then [digit_char n] else str_of_nat (n div 10) @ [digit_char (n mod 10)])"
  by pat_completeness auto
termination
  by (relation "measure id") auto

declare str_of_nat.simps [simp del]

definition str_of_int :: "int \<Rightarrow> string" where
  "str_of_int i = (if i < 0 then CHR ''-'' # str_of_nat (nat (- i)) else str_of_nat (nat i))"

text \<open>
  \<open>digits_val ok acc s\<close> reads digits and underscores; \<open>ok\<close> says whether an underscore
  may stand next, and the text may end (the last character was a digit).
\<close>

fun digits_val :: "bool \<Rightarrow> nat \<Rightarrow> string \<Rightarrow> nat option" where
  "digits_val ok acc [] = (if ok then Some acc else None)"
| "digits_val ok acc (c # cs) =
     (if is_digit c then digits_val True (10 * acc + digit_val c) cs
      else if c = CHR ''_'' \<and> ok then digits_val False acc cs
      else None)"

definition int_of_str :: "string \<Rightarrow> int option" where
  "int_of_str s =
     (case strip s of
        [] \<Rightarrow> None
      | c # cs \<Rightarrow>
          if c = CHR ''-'' then map_option (\<lambda>n. - int n) (digits_val False 0 cs)
          else if c = CHR ''+'' then map_option int (digits_val False 0 cs)
          else map_option int (digits_val False 0 (c # cs)))"

definition zero_pad :: "nat \<Rightarrow> nat \<Rightarrow> string" where
  "zero_pad width n = replicate (width - length (str_of_nat n)) CHR ''0'' @ str_of_nat n"

text \<open>
  \<^verbatim>\<open>str(value)\<close>.  A \<^verbatim>\<open>datetime\<close> prints as \<^verbatim>\<open>YYYY-MM-DD HH:MM:SS\<close>, followed by the
  microseconds when they are not zero.
\<close>

definition str_of_datetime :: "datetime \<Rightarrow> string" where
  "str_of_datetime v =
     zero_pad 4 (year v) @ ''-'' @ zero_pad 2 (month v) @ ''-'' @ zero_pad 2 (day v) @ '' ''
     @ zero_pad 2 (hour v) @ '':'' @ zero_pad 2 (minute v) @ '':'' @ zero_pad 2 (second v)
     @ (if microsecond v = 0 then [] else ''.'' @ zero_pad 6 (microsecond v))"

fun py_str :: "'f env \<Rightarrow> 'f Value \<Rightarrow> string" where
  "py_str E VNone = ''None''"
| "py_str E (VStr s) = s"
| "py_str E (VInt i) = str_of_int i"
| "py_str E (VFloat x) = str_of_float E x"
| "py_str E (VDate v) = str_of_datetime v"

subsection \<open>Dates\<close>

text \<open>
  The patterns of \<^verbatim>\<open>_parse_datetime\<close>, written with \<^verbatim>\<open>re.VERBOSE\<close> in the source:
  \<^verbatim>\<open>:?(today|now)\<close>, then
  \<^verbatim>\<open>(?P<y>[0-9]{4})-(?P<m>[0-9]{1,2}|\w{3})(?:-(?P<d>[0-9]{1,2}))?\<close> and
  \<^verbatim>\<open>(?:(?P<d>[0-9]{1,2})-)?(?P<m>[0-9]{1,2}|\w{3})-(?P<y>[0-9]{2}(?:[0-9]{2})?)\<close>,
  each followed by the optional time
  \<^verbatim>\<open>(?:\s*\(?(?P<H>[0-9]{2}):(?P<M>[0-9]{2})(?::(?P<S>[0-9]{2}))?\)?)?\<close>.
\<close>

definition now_re :: regex where
  "now_re = Seq (Opt (Lit '':'')) (Alt (Lit ''today'') (Lit ''now''))"

definition time_re :: regex where
  "time_re =
     Opt (Seqs [Star (Cls Space), Opt (Lit ''(''),
                Group ''H'' (Rep 2 (Some 2) (Cls Digit)), Lit '':'',
                Group ''M'' (Rep 2 (Some 2) (Cls Digit)),
                Opt (Seq (Lit '':'') (Group ''S'' (Rep 2 (Some 2) (Cls Digit)))),
                Opt (Lit '')'')])"

definition month_re :: regex where
  "month_re = Group ''m'' (Alt (Rep 1 (Some 2) (Cls Digit)) (Rep 3 (Some 3) (Cls WordChar)))"

definition ymd_re :: regex where
  "ymd_re =
     Seqs [Group ''y'' (Rep 4 (Some 4) (Cls Digit)), Lit ''-'', month_re,
           Opt (Seq (Lit ''-'') (Group ''d'' (Rep 1 (Some 2) (Cls Digit)))),
           time_re]"

definition dmy_re :: regex where
  "dmy_re =
     Seqs [Opt (Seq (Group ''d'' (Rep 1 (Some 2) (Cls Digit))) (Lit ''-'')),
           month_re, Lit ''-'',
           Group ''y'' (Seq (Rep 2 (Some 2) (Cls Digit)) (Opt (Rep 2 (Some 2) (Cls Digit)))),
           time_re]"

text \<open>
  \<^verbatim>\<open>_date_fix\<close>.  \<^verbatim>\<open>mo.group(n) or d\<close> is \<open>d\<close> when the group took no part in the match
  or is empty.  A month of three characters is looked up in \<^verbatim>\<open>_MONTHS\<close> (\<^verbatim>\<open>KeyError\<close> when
  it is not there) and printed as a number.
\<close>

definition group_or :: "groups \<Rightarrow> string \<Rightarrow> string \<Rightarrow> string" where
  "group_or mo n d = (case group mo n of None \<Rightarrow> d | Some x \<Rightarrow> if x = [] then d else x)"

definition fix_year :: "string \<Rightarrow> error + string" where
  "fix_year y =
     (if length y = 2
      then (case int_of_str y of
              None \<Rightarrow> Inl ValueError
            | Some n \<Rightarrow> Inr ((if n \<ge> 93 then ''19'' else ''20'') @ y))
      else Inr y)"

definition fix_month :: "string \<Rightarrow> error + string" where
  "fix_month m =
     (if length m = 3
      then (case MONTHS_number (lower m) of
              None \<Rightarrow> Inl KeyError
            | Some k \<Rightarrow> Inr (str_of_nat k))
      else Inr m)"

definition date_fix :: "groups \<Rightarrow> error + string" where
  "date_fix mo =
     (case fix_year (the (group mo ''y'')) of
        Inl e \<Rightarrow> Inl e
      | Inr y \<Rightarrow>
          (case fix_month (the (group mo ''m'')) of
             Inl e \<Rightarrow> Inl e
           | Inr m \<Rightarrow>
               Inr (y @ ''-'' @ m @ ''-'' @ group_or mo ''d'' ''01'' @ '' ''
                    @ group_or mo ''H'' ''00'' @ '':'' @ group_or mo ''M'' ''00''
                    @ '':'' @ group_or mo ''S'' ''00'')))"

text \<open>
  \<^verbatim>\<open>datetime.strptime(s, '%Y-%m-%d %H:%M:%S')\<close>.  The library turns the format into the
  pattern below, matches it from the start of the text, and raises \<^verbatim>\<open>ValueError\<close> when
  there is no match, when text remains after the match, or when the numbers are not a
  date and a time of day.
\<close>

definition strptime_re :: regex where
  "strptime_re =
     Seqs [Group ''Y'' (Rep 4 (Some 4) (Cls Digit)), Lit ''-'',
           Group ''m'' (Alt (Seq (Lit ''1'') (Cls (Range CHR ''0'' CHR ''2'')))
                       (Alt (Seq (Lit ''0'') (Cls (Range CHR ''1'' CHR ''9'')))
                            (Cls (Range CHR ''1'' CHR ''9'')))),
           Lit ''-'',
           Group ''d'' (Alt (Seq (Lit ''3'') (Cls (Range CHR ''0'' CHR ''1'')))
                       (Alt (Seq (Cls (Range CHR ''1'' CHR ''2'')) (Cls Digit))
                       (Alt (Seq (Lit ''0'') (Cls (Range CHR ''1'' CHR ''9'')))
                       (Alt (Cls (Range CHR ''1'' CHR ''9''))
                            (Seq (Lit '' '') (Cls (Range CHR ''1'' CHR ''9''))))))),
           Plus (Cls Space),
           Group ''H'' (Alt (Seq (Lit ''2'') (Cls (Range CHR ''0'' CHR ''3'')))
                       (Alt (Seq (Cls (Range CHR ''0'' CHR ''1'')) (Cls Digit))
                            (Cls Digit))),
           Lit '':'',
           Group ''M'' (Alt (Seq (Cls (Range CHR ''0'' CHR ''5'')) (Cls Digit)) (Cls Digit)),
           Lit '':'',
           Group ''S'' (Alt (Seq (Lit ''6'') (Cls (Range CHR ''0'' CHR ''1'')))
                       (Alt (Seq (Cls (Range CHR ''0'' CHR ''5'')) (Cls Digit))
                            (Cls Digit)))]"

definition is_leap :: "nat \<Rightarrow> bool" where
  "is_leap y \<longleftrightarrow> y mod 4 = 0 \<and> (y mod 100 \<noteq> 0 \<or> y mod 400 = 0)"

definition days_in_month :: "nat \<Rightarrow> nat \<Rightarrow> nat" where
  "days_in_month y m =
     (if m = 2 then (if is_leap y then 29 else 28)
      else if m = 4 \<or> m = 6 \<or> m = 9 \<or> m = 11 then 30 else 31)"

definition group_nat :: "groups \<Rightarrow> string \<Rightarrow> nat" where
  "group_nat m n = (case int_of_str (the (group m n)) of None \<Rightarrow> 0 | Some i \<Rightarrow> nat i)"

definition strptime :: "string \<Rightarrow> error + datetime" where
  "strptime s =
     (case rmatch strptime_re s [] (\<lambda>s' g. Some (s', g)) of
        None \<Rightarrow> Inl ValueError
      | Some (rest, m) \<Rightarrow>
          if rest \<noteq> [] then Inl ValueError
          else (let Y = group_nat m ''Y''; mo = group_nat m ''m''; d = group_nat m ''d'';
                    H = group_nat m ''H''; M = group_nat m ''M''; S = group_nat m ''S''
                in if 1 \<le> Y \<and> 1 \<le> mo \<and> mo \<le> 12 \<and> 1 \<le> d \<and> d \<le> days_in_month Y mo
                      \<and> H \<le> 23 \<and> M \<le> 59 \<and> S \<le> 59
                   then Inr \<lparr> year = Y, month = mo, day = d, hour = H, minute = M,
                             second = S, microsecond = 0 \<rparr>
                   else Inl ValueError))"

definition parse_datetime :: "'f env \<Rightarrow> string \<Rightarrow> error + datetime" where
  "parse_datetime E s =
     (if re_match now_re s \<noteq> None then Inr (now E)
      else (case (case re_match ymd_re s of
                    None \<Rightarrow> re_match dmy_re s
                  | Some m \<Rightarrow> Some m) of
              None \<Rightarrow> strptime s
            | Some m \<Rightarrow>
                (case date_fix m of
                   Inl e \<Rightarrow> Inl e
                 | Inr s' \<Rightarrow> strptime s')))"

subsection \<open>Casting and formatting\<close>

definition cast :: "'f env \<Rightarrow> string \<Rightarrow> string option \<Rightarrow> error + 'f Value" where
  "cast E dt raw_value =
     (case raw_value of
        None \<Rightarrow> Inr VNone
      | Some raw \<Rightarrow>
          if raw = [] then Inr VNone
          else if dt = '':integer'' then
            (case int_of_str raw of None \<Rightarrow> Inl ValueError | Some i \<Rightarrow> Inr (VInt i))
          else if dt = '':float'' then
            (case float_of_str E raw of None \<Rightarrow> Inl ValueError | Some x \<Rightarrow> Inr (VFloat x))
          else if dt = '':date'' then
            (case parse_datetime E raw of Inl e \<Rightarrow> Inl e | Inr v \<Rightarrow> Inr (VDate v))
          else if dt = '':string'' then Inr (VStr raw)
          else Inl TSDBError)"

text \<open>
  \<^verbatim>\<open>value.strftime(pattern)\<close> for the two patterns that \<^verbatim>\<open>format\<close> builds: the day as
  \<^verbatim>\<open>str(value.day)\<close>, the month's name, \<^verbatim>\<open>%Y\<close>, and the time as \<^verbatim>\<open>%H:%M:%S\<close> when it is
  not midnight.  \<^verbatim>\<open>%Y\<close> prints the year without padding, as the C library of Linux does.
\<close>

definition format_date :: "datetime \<Rightarrow> error + string" where
  "format_date v =
     (case MONTHS_name (month v) of
        None \<Rightarrow> Inl KeyError
      | Some mon \<Rightarrow>
          Inr (str_of_nat (day v) @ ''-'' @ mon @ ''-'' @ str_of_nat (year v)
               @ (if (hour v, minute v, second v) \<noteq> (0, 0, 0)
                  then '' '' @ zero_pad 2 (hour v) @ '':'' @ zero_pad 2 (minute v)
                       @ '':'' @ zero_pad 2 (second v)
                  else [])))"

definition format :: "'f env \<Rightarrow> string \<Rightarrow> 'f Value \<Rightarrow> string option \<Rightarrow> error + string" where
  "format E dt v dflt =
     (case v of
        VNone \<Rightarrow>
          (case dflt of
             None \<Rightarrow> Inr (if dt = '':integer'' then ''-1'' else [])
           | Some d \<Rightarrow> Inr d)
      | VDate d \<Rightarrow> if dt = '':date'' then format_date d else Inr (py_str E v)
      | _ \<Rightarrow> Inr (py_str E v))"

subsection \<open>Records\<close>

text \<open>
  \<^verbatim>\<open>decode\<close> and \<^verbatim>\<open>encode\<close>.  The argument \<^verbatim>\<open>fields\<close> is optional, and \<^verbatim>\<open>if fields:\<close> takes
  the branch without fields for \<^verbatim>\<open>None\<close> and for an empty sequence alike.  \<open>sequence\<close>
  collects results from the left and stops at the first exception.
\<close>

fun sequence :: "(error + 'a) list \<Rightarrow> error + 'a list" where
  "sequence [] = Inr []"
| "sequence (x # xs) =
     (case x of
        Inl e \<Rightarrow> Inl e
      | Inr v \<Rightarrow> (case sequence xs of Inl e \<Rightarrow> Inl e | Inr vs \<Rightarrow> Inr (v # vs)))"

definition raw_column :: "string \<Rightarrow> string option" where
  "raw_column col = (if col \<noteq> [] then Some (unescape col) else None)"

definition raw_value_of :: "string option \<Rightarrow> 'f Value" where
  "raw_value_of r = (case r of None \<Rightarrow> VNone | Some s \<Rightarrow> VStr s)"

definition truthy :: "'a list option \<Rightarrow> bool" where
  "truthy fields' = (case fields' of None \<Rightarrow> False | Some fs \<Rightarrow> fs \<noteq> [])"

definition decode :: "'f env \<Rightarrow> string \<Rightarrow> Field list option \<Rightarrow> error + 'f Value list" where
  "decode E line fields' =
     (let raw_values = map raw_column (split_on FIELD_DELIMITER (rstrip_newline line))
      in if truthy fields' then
           (if length raw_values \<noteq> length (the fields') then Inl TSDBError
            else sequence (map (\<lambda>(col, f). cast E (datatype_tag f) col)
                               (zip raw_values (the fields'))))
         else Inr (map raw_value_of raw_values))"

definition encode :: "'f env \<Rightarrow> 'f Value list \<Rightarrow> Field list option \<Rightarrow> error + string" where
  "encode E vals fields' =
     (case (if truthy fields' then
              (if length vals \<noteq> length (the fields') then Inl TSDBError
               else sequence (map (\<lambda>(f, val). format E (datatype_tag f) val (Some (default f)))
                                  (zip (the fields') vals)))
            else Inr (map (\<lambda>v. if v = VNone then [] else py_str E v) vals)) of
        Inl e \<Rightarrow> Inl e
      | Inr raw_values \<Rightarrow> Inr (join [FIELD_DELIMITER] (map escape raw_values)))"

subsection \<open>Files\<close>

text \<open>
  The file system is a map from paths to directories and files, each with its time of
  modification.  The content of a file is the list of the pieces that were written to
  it: plain text (written through \<^verbatim>\<open>Path.open\<close>) or a gzip member holding text (written
  through \<^verbatim>\<open>gzip.open\<close>).  A gzip member takes space on disk even when the text it holds
  is empty.  Text and bytes are not told apart: the encoding step is left out.
\<close>

type_synonym path = string

datatype segment = Raw string | Gz string

datatype node = Dir nat | File nat "segment list"

type_synonym filesystem = "path \<rightharpoonup> node"

definition is_dir :: "filesystem \<Rightarrow> path \<Rightarrow> bool" where
  "is_dir fs p = (case fs p of Some (Dir t) \<Rightarrow> True | _ \<Rightarrow> False)"

definition is_file :: "filesystem \<Rightarrow> path \<Rightarrow> bool" where
  "is_file fs p = (case fs p of Some (File t c) \<Rightarrow> True | _ \<Rightarrow> False)"

definition exists :: "filesystem \<Rightarrow> path \<Rightarrow> bool" where
  "exists fs p = (fs p \<noteq> None)"

definition st_mtime :: "filesystem \<Rightarrow> path \<Rightarrow> nat" where
  "st_mtime fs p = (case fs p of Some (Dir t) \<Rightarrow> t | Some (File t c) \<Rightarrow> t | None \<Rightarrow> 0)"

definition content :: "filesystem \<Rightarrow> path \<Rightarrow> segment list" where
  "content fs p = (case fs p of Some (File t c) \<Rightarrow> c | _ \<Rightarrow> [])"

fun segment_size :: "segment \<Rightarrow> nat" where
  "segment_size (Raw s) = length s"
| "segment_size (Gz s) = 20 + length s"

definition st_size :: "filesystem \<Rightarrow> path \<Rightarrow> nat" where
  "st_size fs p = sum_list (map segment_size (content fs p))"

fun is_gz :: "segment \<Rightarrow> bool" where
  "is_gz (Gz s) = True"
| "is_gz (Raw s) = False"

text \<open>
  \<^verbatim>\<open>Path(dir, name)\<close> and \<^verbatim>\<open>with_suffix\<close>.  The suffix of a path is the part of its last
  component from the last dot on, when that dot is neither the first nor the last
  character of the component; \<^verbatim>\<open>with_suffix\<close> raises \<^verbatim>\<open>ValueError\<close> on an empty last
  component.
\<close>

definition join_path :: "path \<Rightarrow> string \<Rightarrow> path" where
  "join_path d n = d @ ''/'' @ n"

definition last_component :: "path \<Rightarrow> string" where
  "last_component p = rev (takeWhile (\<lambda>c. c \<noteq> CHR ''/'') (rev p))"

definition suffix_of :: "path \<Rightarrow> string" where
  "suffix_of p =
     (let n = last_component p;
          ext = rev (takeWhile (\<lambda>c. c \<noteq> CHR ''.'') (rev n))
      in if CHR ''.'' \<in> set n \<and> ext \<noteq> [] \<and> Suc (length ext) < length n
         then CHR ''.'' # ext else [])"

definition with_suffix :: "path \<Rightarrow> string \<Rightarrow> error + path" where
  "with_suffix p suf =
     (if last_component p = [] then Inl ValueError
      else Inr (take (length p - length (suffix_of p)) p @ suf))"

text \<open>
  \<^verbatim>\<open>_get_paths\<close>: the plain path, the compressed path, and whether the compressed file
  is the one to use (it is a file, and the plain path does not exist or is older).
\<close>

definition get_paths :: "filesystem \<Rightarrow> path \<Rightarrow> string \<Rightarrow> error + (path \<times> path \<times> bool)" where
  "get_paths fs d n =
     (let tbl_path = join_path d n
      in case with_suffix tbl_path [] of
           Inl e \<Rightarrow> Inl e
         | Inr tx_path \<Rightarrow>
             (case with_suffix tbl_path ''.gz'' of
                Inl e \<Rightarrow> Inl e
              | Inr gz_path \<Rightarrow>
                  Inr (tx_path, gz_path,
                       is_file fs gz_path
                       \<and> (\<not> exists fs tx_path \<or> st_mtime fs gz_path > st_mtime fs tx_path))))"

definition get_path :: "filesystem \<Rightarrow> path \<Rightarrow> string \<Rightarrow> error + path" where
  "get_path fs d n =
     (case get_paths fs d n of
        Inl e \<Rightarrow> Inl e
      | Inr (tx_path, gz_path, use_gz) \<Rightarrow>
          (let tbl_path = (if use_gz then gz_path else tx_path)
           in if \<not> is_file fs tbl_path then Inl TSDBError else Inr tbl_path))"

text \<open>
  Reading.  A file opened as text gives the lines of its text, each with its line feed,
  carriage returns being read as line feeds; a gzip member in it is not text
  (\<^verbatim>\<open>UnicodeDecodeError\<close>, a \<^verbatim>\<open>ValueError\<close>).  A file opened through \<^verbatim>\<open>gzip.open\<close> gives
  the text of its members; plain text in it is not a gzip member (\<^verbatim>\<open>OSError\<close>), unless
  it is empty.
\<close>

fun universal_newlines :: "string \<Rightarrow> string" where
  "universal_newlines [] = []"
| "universal_newlines (c # cs) =
     (if c = CHR 0x0D then
        newline # universal_newlines (if cs \<noteq> [] \<and> hd cs = newline then tl cs else cs)
      else c # universal_newlines cs)"

fun lines_acc :: "string \<Rightarrow> string \<Rightarrow> string list" where
  "lines_acc acc [] = (if acc = [] then [] else [rev acc])"
| "lines_acc acc (c # cs) =
     (if c = newline then rev (c # acc) # lines_acc [] cs else lines_acc (c # acc) cs)"

definition text_lines :: "string \<Rightarrow> string list" where
  "text_lines s = lines_acc [] (universal_newlines s)"

fun plain_text :: "segment list \<Rightarrow> error + string" where
  "plain_text [] = Inr []"
| "plain_text (Raw s # segs) =
     (case plain_text segs of Inl e \<Rightarrow> Inl e | Inr t \<Rightarrow> Inr (s @ t))"
| "plain_text (Gz s # segs) = Inl ValueError"

fun gzip_text :: "segment list \<Rightarrow> error + string" where
  "gzip_text [] = Inr []"
| "gzip_text (Gz s # segs) =
     (case gzip_text segs of Inl e \<Rightarrow> Inl e | Inr t \<Rightarrow> Inr (s @ t))"
| "gzip_text (Raw s # segs) = (if s = [] then gzip_text segs else Inl OSError)"

definition open_table :: "filesystem \<Rightarrow> path \<Rightarrow> string \<Rightarrow> error + string list" where
  "open_table fs d n =
     (case get_path fs d n of
        Inl e \<Rightarrow> Inl e
      | Inr p \<Rightarrow>
          (case (if lower (suffix_of p) = ''.gz'' then gzip_text (content fs p)
                 else plain_text (content fs p)) of
             Inl e \<Rightarrow> Inl e
           | Inr t \<Rightarrow> Inr (text_lines t)))"

text \<open>
  Writing.  \<open>write_file fs clock p append_flag compress data\<close> is \<^verbatim>\<open>gzip.open(p, mode)\<close> or
  \<^verbatim>\<open>p.open(mode=mode)\<close> followed by the copy of \<open>data\<close>; the mode is \<^verbatim>\<open>ab\<close> or \<^verbatim>\<open>wb\<close>.
  Opening a directory raises \<^verbatim>\<open>OSError\<close>.
\<close>

definition write_file ::
    "filesystem \<Rightarrow> nat \<Rightarrow> path \<Rightarrow> bool \<Rightarrow> bool \<Rightarrow> string \<Rightarrow> error + filesystem" where
  "write_file fs clock p append_flag compress data =
     (if is_dir fs p then Inl OSError
      else Inr (fs (p \<mapsto> File clock ((if append_flag then content fs p else [])
                                       @ [if compress then Gz data else Raw data]))))"

definition unlink :: "filesystem \<Rightarrow> path \<Rightarrow> filesystem" where
  "unlink fs p = fs (p := None)"

text \<open>
  \<^verbatim>\<open>write\<close>, here \<open>tsdb_write\<close>.  The records are encoded into a temporary file first, so an exception of
  \<^verbatim>\<open>encode\<close> leaves the destination as it was; the temporary file is gone when \<^verbatim>\<open>write\<close>
  returns and is not part of the resulting file system.  \<open>clock\<close> is the time the
  destination is stamped with.
\<close>

definition encode_lines :: "'f env \<Rightarrow> 'f Value list list \<Rightarrow> Field list \<Rightarrow> error + string" where
  "encode_lines E records fds =
     (case sequence (map (\<lambda>r. encode E r (Some fds)) records) of
        Inl e \<Rightarrow> Inl e
      | Inr ls \<Rightarrow> Inr (concat (map (\<lambda>l. l @ [newline]) ls)))"

definition tsdb_write ::
    "'f env \<Rightarrow> filesystem \<Rightarrow> nat \<Rightarrow> path \<Rightarrow> string \<Rightarrow> 'f Value list list \<Rightarrow> Field list
      \<Rightarrow> bool \<Rightarrow> bool option \<Rightarrow> error + filesystem" where
  "tsdb_write E fs clock d n records fds append_flag gzip =
     (if \<not> is_dir fs d then Inl TSDBError
      else case get_paths fs d n of
        Inl e \<Rightarrow> Inl e
      | Inr (tx_path, gz_path, use_gz) \<Rightarrow>
          (let gzip1 = (case gzip of None \<Rightarrow> use_gz | Some b \<Rightarrow> b);
               dest = (if gzip1 then gz_path else tx_path);
               other = (if gzip1 then tx_path else gz_path);
               append_nonempty = (append_flag \<and> is_file fs dest \<and> st_size fs dest > 0)
           in case encode_lines E records fds of
                Inl e \<Rightarrow> Inl e
              | Inr tmp \<Rightarrow>
                  (let gzip2 = (gzip1 \<and> (length tmp \<noteq> 0 \<or> append_nonempty))
                   in case write_file fs clock dest append_flag gzip2 tmp of
                        Inl e \<Rightarrow> Inl e
                      | Inr fs' \<Rightarrow>
                          Inr (if is_file fs' other then unlink fs' other else fs'))))"

subsection \<open>Relations\<close>

text \<open>
  \<^verbatim>\<open>make_field_index\<close>: a dictionary from field names to positions; where two fields
  share a name the later position stays.
\<close>

definition make_field_index :: "Field list \<Rightarrow> (string \<rightharpoonup> nat)" where
  "make_field_index fds = map_of (rev (zip (map name fds) [0 ..< length fds]))"

record Relation =
  rel_dir :: path
  rel_name :: string
  rel_fields :: "Field list"
  field_index :: "string \<rightharpoonup> nat"

definition Relation_init :: "path \<Rightarrow> string \<Rightarrow> Field list \<Rightarrow> Relation" where
  "Relation_init d n fds =
     \<lparr> rel_dir = d, rel_name = n, rel_fields = fds, field_index = make_field_index fds \<rparr>"

text \<open>
  A generator is modelled by what it yields: the list of the values yielded, and the
  exception that ended it, if one did.
\<close>

type_synonym 'a generator = "'a list \<times> error option"

fun yield_all :: "(error + 'a) list \<Rightarrow> 'a generator" where
  "yield_all [] = ([], None)"
| "yield_all (x # xs) =
     (case x of
        Inl e \<Rightarrow> ([], Some e)
      | Inr v \<Rightarrow> (case yield_all xs of (vs, e) \<Rightarrow> (v # vs, e)))"

text \<open>\<^verbatim>\<open>Relation.__iter__\<close>: every line of the file is decoded without fields.\<close>

definition Relation_iter :: "'f env \<Rightarrow> filesystem \<Rightarrow> Relation \<Rightarrow> 'f Value list generator" where
  "Relation_iter E fs rel =
     (case open_table fs (rel_dir rel) (rel_name rel) of
        Inl e \<Rightarrow> ([], Some e)
      | Inr ls \<Rightarrow> yield_all (map (\<lambda>line. decode E line None) ls))"

text \<open>
  \<^verbatim>\<open>Relation.select\<close>.  An unknown name raises \<^verbatim>\<open>TSDBError\<close> before the file is opened;
  \<^verbatim>\<open>record[idx]\<close> raises \<^verbatim>\<open>IndexError\<close> on a line with too few columns.
\<close>

definition column_index :: "Relation \<Rightarrow> string \<Rightarrow> error + nat" where
  "column_index rel n = (case field_index rel n of None \<Rightarrow> Inl KeyError | Some i \<Rightarrow> Inr i)"

definition project :: "nat list \<Rightarrow> 'a list \<Rightarrow> error + 'a list" where
  "project indices r =
     sequence (map (\<lambda>idx. if idx < length r then Inr (r ! idx) else Inl IndexError) indices)"

definition Relation_select ::
    "'f env \<Rightarrow> filesystem \<Rightarrow> Relation \<Rightarrow> string list \<Rightarrow> 'f Value list generator" where
  "Relation_select E fs rel names =
     (if names = [] then Relation_iter E fs rel
      else case sequence (map (column_index rel) names) of
             Inl e \<Rightarrow> ([], Some TSDBError)
           | Inr indices \<Rightarrow>
               (case Relation_iter E fs rel of
                  (records, e) \<Rightarrow>
                    (case yield_all (map (project indices) records) of
                       (rows, e') \<Rightarrow> (rows, if e' \<noteq> None then e' else e))))"

subsection \<open>Queries: tokens and condition trees\<close>

text \<open>
  The parser of \<^verbatim>\<open>tsql.py\<close> reads the tokens that \<^verbatim>\<open>_lex\<close> yields, each a triple of the
  number of the lexical class, the text and the line number.  The classes that the
  parser tells apart are 1 (keywords, among them \<^verbatim>\<open>*\<close> and the full stop), 2 (operators),
  3 (parentheses), 4 and 5 (the text inside a quoted string), 6, 7 and 8 (dates),
  9 (integers) and 10 (identifiers).  The look-ahead iterator is a list: \<open>next_token\<close>
  takes its head and \<open>peek\<close> reads it, and both raise \<^verbatim>\<open>StopIteration\<close> on the empty list.

  A condition is the pair \<^verbatim>\<open>(op, body)\<close> that the parser builds: the body of \<^verbatim>\<open>and\<close> and
  \<^verbatim>\<open>or\<close> is the tuple of the conditions joined, the body of \<^verbatim>\<open>not\<close> is what the negated
  disjunction returned (\<^verbatim>\<open>None\<close> when it read no condition), and the body of a comparison
  is the pair of the column and the value.
\<close>

type_synonym token = "nat \<times> string \<times> nat"

datatype literal = LStr string | LInt int | LDate datetime

datatype cond = Cond string body
  and body = Conds "cond list" | Inner "cond option" | Stmt string literal

text \<open>
  The parsing functions call each other and loop on the tokens left by the calls they
  made, so they take a bound on the depth of calls, \<open>OutOfFuel\<close> being the result when
  the bound is reached.
\<close>

datatype 'a outcome = OutOfFuel | Raise error | Return 'a

definition next_token :: "token list \<Rightarrow> (token \<times> token list) outcome" where
  "next_token ts = (case ts of [] \<Rightarrow> Raise StopIteration | t # rest \<Rightarrow> Return (t, rest))"

definition peek :: "token list \<Rightarrow> token outcome" where
  "peek ts = (case ts of [] \<Rightarrow> Raise StopIteration | t # rest \<Rightarrow> Return t)"

definition gid_of :: "token \<Rightarrow> nat" where
  "gid_of t = fst t"

definition text_of :: "token \<Rightarrow> string" where
  "text_of t = fst (snd t)"

text \<open>
  \<open>bind\<close> runs one step after another: an exception, or the end of the fuel, of the first
  step is the result; \<open>expect\<close> is \<^verbatim>\<open>_expect\<close>.
\<close>

definition bind :: "'a outcome \<Rightarrow> ('a \<Rightarrow> 'b outcome) \<Rightarrow> 'b outcome" where
  "bind m f = (case m of OutOfFuel \<Rightarrow> OutOfFuel | Raise e \<Rightarrow> Raise e | Return x \<Rightarrow> f x)"

definition expect :: "bool \<Rightarrow> unit outcome" where
  "expect expected = (if expected then Return () else Raise TSQLSyntaxError)"

type_synonym 'a parser = "token list \<Rightarrow> ('a \<times> token list) outcome"

text \<open>
  \<^verbatim>\<open>_parse_condition_statement\<close>.  \<open>P\<close> is \<^verbatim>\<open>delphin.util.parse_datetime\<close>, which the
  parser calls on the text of a date.
\<close>

definition statement_value :: "(string \<Rightarrow> error + datetime) \<Rightarrow> token \<Rightarrow> literal outcome" where
  "statement_value P t =
     (if gid_of t \<in> {6, 7, 8} then
        (case P (text_of t) of Inl e \<Rightarrow> Raise e | Inr d \<Rightarrow> Return (LDate d))
      else if gid_of t = 9 then
        (case int_of_str (text_of t) of None \<Rightarrow> Raise ValueError | Some i \<Rightarrow> Return (LInt i))
      else Return (LStr (text_of t)))"

definition parse_condition_statement :: "(string \<Rightarrow> error + datetime) \<Rightarrow> cond parser" where
  "parse_condition_statement P ts =
     bind (next_token ts) (\<lambda>(t1, ts1).
     bind (expect (gid_of t1 = 10)) (\<lambda>u1.
     bind (next_token ts1) (\<lambda>(t2, ts2).
     bind (expect (gid_of t2 = 2)) (\<lambda>u2.
     bind (next_token ts2) (\<lambda>(t3, ts3).
       (let column = text_of t1;
            op = (if text_of t2 = ''='' then ''=='' else text_of t2)
        in if op \<in> {''~'', ''!~''} \<and> gid_of t3 \<notin> {4, 5} then Raise TSQLSyntaxError
           else if op \<in> {''<'', ''<='', ''>'', ''>=''} \<and> gid_of t3 \<notin> {6, 7, 8, 9}
             then Raise TSQLSyntaxError
           else bind (statement_value P t3) (\<lambda>v.
                  Return (Cond op (Stmt column v), ts3))))))))"

text \<open>
  The end of both loops: no condition gives \<^verbatim>\<open>None\<close>, one condition is returned as it
  is, and two or more are wrapped as \<^verbatim>\<open>(op, tuple(conds))\<close>.
\<close>

definition wrap_conds :: "string \<Rightarrow> cond list \<Rightarrow> cond option" where
  "wrap_conds op conds =
     (case conds of
        [] \<Rightarrow> None
      | [c] \<Rightarrow> Some c
      | _ \<Rightarrow> Some (Cond op (Conds conds)))"

text \<open>
  The bodies of \<^verbatim>\<open>_parse_condition_disjunction\<close>, \<^verbatim>\<open>_parse_condition_conjunction\<close>,
  \<^verbatim>\<open>_parse_condition_negation\<close> and \<^verbatim>\<open>_parse_condition_group\<close>, each with the functions
  it calls as arguments; the last argument but one of the first two is the list
  \<^verbatim>\<open>conds\<close> of the conditions read so far, and \<open>again\<close> is the next round of the loop.

  In the disjunction, a condition that is \<^verbatim>\<open>None\<close> is not appended, and after \<^verbatim>\<open>or\<close> the
  next token is peeked at before the next round.
\<close>

definition disjunction_round ::
    "cond option parser \<Rightarrow> (cond list \<Rightarrow> cond option parser) \<Rightarrow> cond list
      \<Rightarrow> cond option parser" where
  "disjunction_round conjunction again conds ts =
     bind (conjunction ts) (\<lambda>(c, ts1).
       (let conds1 = (case c of None \<Rightarrow> conds | Some x \<Rightarrow> conds @ [x])
        in bind (peek ts1) (\<lambda>t.
             if text_of t \<in> {''|'', ''||'', ''or''}
             then bind (peek (tl ts1)) (\<lambda>t'. again conds1 (tl ts1))
             else Return (wrap_conds ''or'' conds1, ts1))))"

text \<open>
  In the conjunction, the source peeks before its loop and again after each \<^verbatim>\<open>and\<close>,
  that is each time just before the head of the loop, where the model peeks.  The
  four tests on the token are those of the source, in its order; a closing parenthesis
  leaves the loop.  \<open>conjunction_next\<close> is the rest of a round after a condition was
  read.
\<close>

definition conjunction_next ::
    "(cond list \<Rightarrow> cond option parser) \<Rightarrow> cond list \<Rightarrow> (cond \<times> token list) outcome
      \<Rightarrow> (cond option \<times> token list) outcome" where
  "conjunction_next again conds r =
     bind r (\<lambda>(c, ts1).
     bind (peek ts1) (\<lambda>t'.
       if lower (text_of t') \<in> {''&'', ''&&'', ''and''}
       then again (conds @ [c]) (tl ts1)
       else Return (wrap_conds ''and'' (conds @ [c]), ts1)))"

definition conjunction_round ::
    "cond parser \<Rightarrow> cond parser \<Rightarrow> cond parser \<Rightarrow> (cond list \<Rightarrow> cond option parser)
      \<Rightarrow> cond list \<Rightarrow> cond option parser" where
  "conjunction_round negation grp statement again conds ts =
     bind (peek ts) (\<lambda>t.
       if gid_of t = 2 \<and> lower (text_of t) \<in> {''!'', ''not''}
         then conjunction_next again conds (negation ts)
       else if gid_of t = 3 \<and> text_of t = ''(''
         then conjunction_next again conds (grp ts)
       else if gid_of t = 3 \<and> text_of t = '')''
         then Return (wrap_conds ''and'' conds, ts)
       else if gid_of t = 10
         then conjunction_next again conds (statement ts)
       else Raise TSQLSyntaxError)"

definition negation_body :: "cond option parser \<Rightarrow> cond parser" where
  "negation_body disjunction ts =
     bind (next_token ts) (\<lambda>(t, ts1).
     bind (expect (gid_of t = 2 \<and> text_of t \<in> {''!'', ''not''})) (\<lambda>u.
     bind (disjunction ts1) (\<lambda>(c, ts2).
       Return (Cond ''not'' (Inner c), ts2))))"

text \<open>\<^verbatim>\<open>tuple(cond)\<close> raises \<^verbatim>\<open>TypeError\<close> when \<^verbatim>\<open>cond\<close> is \<^verbatim>\<open>None\<close>.\<close>

definition group_body :: "cond option parser \<Rightarrow> cond parser" where
  "group_body disjunction ts =
     bind (next_token ts) (\<lambda>(t, ts1).
     bind (expect (gid_of t = 3 \<and> text_of t = ''('')) (\<lambda>u.
     bind (disjunction ts1) (\<lambda>(c, ts2).
     bind (next_token ts2) (\<lambda>(t', ts3).
     bind (expect (gid_of t' = 3 \<and> text_of t' = '')'')) (\<lambda>u'.
       (case c of None \<Rightarrow> Raise TypeError | Some x \<Rightarrow> Return (x, ts3)))))))"

text \<open>
  The four functions.  They call each other, and the loops run on the tokens that the
  calls leave, so the functions take a bound on the depth of the calls and of the
  rounds; \<open>OutOfFuel\<close> is the result when the bound is reached.
\<close>

function parse_condition_disjunction ::
      "nat \<Rightarrow> (string \<Rightarrow> error + datetime) \<Rightarrow> cond list \<Rightarrow> cond option parser"
  and parse_condition_conjunction ::
      "nat \<Rightarrow> (string \<Rightarrow> error + datetime) \<Rightarrow> cond list \<Rightarrow> cond option parser"
  and parse_condition_negation ::
      "nat \<Rightarrow> (string \<Rightarrow> error + datetime) \<Rightarrow> cond parser"
  and parse_condition_group ::
      "nat \<Rightarrow> (string \<Rightarrow> error + datetime) \<Rightarrow> cond parser"
where
  "parse_condition_disjunction 0 P conds ts = OutOfFuel"
| "parse_condition_disjunction (Suc n) P conds ts =
     disjunction_round
       (\<lambda>ts'. parse_condition_conjunction n P [] ts')
       (\<lambda>conds' ts'. parse_condition_disjunction n P conds' ts')
       conds ts"
| "parse_condition_conjunction 0 P conds ts = OutOfFuel"
| "parse_condition_conjunction (Suc n) P conds ts =
     conjunction_round
       (\<lambda>ts'. parse_condition_negation n P ts')
       (\<lambda>ts'. parse_condition_group n P ts')
       (parse_condition_statement P)
       (\<lambda>conds' ts'. parse_condition_conjunction n P conds' ts')
       conds ts"
| "parse_condition_negation 0 P ts = OutOfFuel"
| "parse_condition_negation (Suc n) P ts =
     negation_body (\<lambda>ts'. parse_condition_disjunction n P [] ts') ts"
| "parse_condition_group 0 P ts = OutOfFuel"
| "parse_condition_group (Suc n) P ts =
     group_body (\<lambda>ts'. parse_condition_disjunction n P [] ts') ts"
  by pat_completeness auto
termination
  by (relation "measure (\<lambda>x. case x of
        Inl (Inl (n, r)) \<Rightarrow> n | Inl (Inr (n, r)) \<Rightarrow> n
      | Inr (Inl (n, r)) \<Rightarrow> n | Inr (Inr (n, r)) \<Rightarrow> n)") auto

text \<open>\<^verbatim>\<open>_parse_select_where\<close>.\<close>

definition parse_select_where ::
    "nat \<Rightarrow> (string \<Rightarrow> error + datetime) \<Rightarrow> cond option parser" where
  "parse_select_where n P ts =
     bind (peek ts) (\<lambda>t.
       if text_of t = ''where'' then parse_condition_disjunction n P [] (tl ts)
       else Return (None, ts))"

text \<open>
  \<^verbatim>\<open>_parse_select_projection\<close>, \<^verbatim>\<open>_prepare_columns\<close> and \<^verbatim>\<open>_parse_select_from\<close>.
  \<open>take_identifiers\<close> is the loop \<^verbatim>\<open>while tokens.peek()[0] == 10\<close>.
\<close>

datatype projection = AllColumns | Columns "string list"

fun take_identifiers :: "string list parser" where
  "take_identifiers [] = Raise StopIteration"
| "take_identifiers (t # ts) =
     (if gid_of t = 10
      then bind (take_identifiers ts) (\<lambda>(cols, rest). Return (text_of t # cols, rest))
      else Return ([], t # ts))"

definition rpartition :: "char \<Rightarrow> string \<Rightarrow> string \<times> string \<times> string" where
  "rpartition sep s =
     (if sep \<in> set s
      then (rev (tl (dropWhile (\<lambda>c. c \<noteq> sep) (rev s))), [sep],
            rev (takeWhile (\<lambda>c. c \<noteq> sep) (rev s)))
      else ([], [], s))"

fun prepare_parts :: "string \<Rightarrow> string list \<Rightarrow> string list" where
  "prepare_parts table [] = []"
| "prepare_parts table (part # parts) =
     (case rpartition CHR '':'' part of
        (tblname, sep, colname) \<Rightarrow>
          (let table1 = (if tblname \<noteq> [] then tblname @ '':'' else table)
           in (table1 @ colname) # prepare_parts table1 parts))"

definition prepare_columns :: "string list \<Rightarrow> string list" where
  "prepare_columns cols = concat (map (\<lambda>col. prepare_parts [] (split_on CHR ''@'' col)) cols)"

definition parse_select_projection :: "projection parser" where
  "parse_select_projection ts =
     bind (next_token ts) (\<lambda>(t, ts1).
       if text_of t = ''*'' then Return (AllColumns, ts1)
       else if gid_of t = 10 then
         bind (take_identifiers ts1) (\<lambda>(cols, ts2).
           Return (Columns (prepare_columns (text_of t # cols)), ts2))
       else Raise TSQLSyntaxError)"

definition parse_select_from :: "string list parser" where
  "parse_select_from ts =
     bind (peek ts) (\<lambda>t.
       if text_of t = ''from'' then take_identifiers (tl ts)
       else Return ([], ts))"

text \<open>\<^verbatim>\<open>_parse_select\<close>: the query, and the tokens left.\<close>

record query =
  querytype :: string
  projection_of :: projection
  tables_of :: "string list"
  where_of :: "cond option"

definition parse_select :: "nat \<Rightarrow> (string \<Rightarrow> error + datetime) \<Rightarrow> query parser" where
  "parse_select n P ts =
     bind (peek ts) (\<lambda>t0.
     bind (parse_select_projection ts) (\<lambda>(proj, ts1).
     bind (parse_select_from ts1) (\<lambda>(tabs, ts2).
     bind (parse_select_where n P ts2) (\<lambda>(condition, ts3).
       if proj = AllColumns \<and> tabs = [] \<and> condition = None then Raise TSQLSyntaxError
       else Return (\<lparr> querytype = ''select'', projection_of = proj, tables_of = tabs,
                      where_of = condition \<rparr>, ts3)))))"

text \<open>
  \<^verbatim>\<open>_parse_query\<close>.  The final test asks for a token of class 2 with the text of a full
  stop.
\<close>

definition parse_query ::
    "nat \<Rightarrow> (string \<Rightarrow> error + datetime) \<Rightarrow> token list \<Rightarrow> query outcome" where
  "parse_query n P ts =
     bind (next_token ts) (\<lambda>(t, ts1).
     bind (expect (gid_of t = 1
                   \<and> text_of t \<in> {''info'', ''set'', ''retrieve'', ''select'', ''insert''})) (\<lambda>u.
       if text_of t \<notin> {''retrieve'', ''select''} then Raise TSQLSyntaxError
       else bind (parse_select n P ts1) (\<lambda>(q, ts2).
            bind (next_token ts2) (\<lambda>(t', ts3).
            bind (expect (gid_of t' = 2 \<and> text_of t' = ''.'')) (\<lambda>u'.
              Return q)))))"

text \<open>
  The condition tree of the specification: \<^verbatim>\<open>And(left, right)\<close>, \<^verbatim>\<open>Or(left, right)\<close>,
  \<^verbatim>\<open>Not(inner)\<close> and \<^verbatim>\<open>Compare(operator, column, literal)\<close> with one of the eight
  comparison operators.
\<close>

definition comparison_ops :: "string set" where
  "comparison_ops = {''=='', ''!='', ''<'', ''<='', ''>'', ''>='', ''~'', ''!~''}"

fun tagged_variant :: "cond \<Rightarrow> bool"
  and tagged_body :: "string \<Rightarrow> body \<Rightarrow> bool"
  and tagged_all :: "cond list \<Rightarrow> bool"
where
  "tagged_variant (Cond op b) = tagged_body op b"
| "tagged_body op (Conds cs) = ((op = ''and'' \<or> op = ''or'') \<and> length cs = 2 \<and> tagged_all cs)"
| "tagged_body op (Inner c) =
     (op = ''not'' \<and> (case c of None \<Rightarrow> False | Some x \<Rightarrow> tagged_variant x))"
| "tagged_body op (Stmt col v) = (op \<in> comparison_ops)"
| "tagged_all [] = True"
| "tagged_all (c # cs) = (tagged_variant c \<and> tagged_all cs)"

text \<open>
  \<^verbatim>\<open>_process_condition\<close>, as far as the list of the fields it returns goes (its other
  result is a closure over the rows of a table).  For \<^verbatim>\<open>and\<close> and \<^verbatim>\<open>or\<close> it reads
  \<^verbatim>\<open>body[0]\<close> and \<^verbatim>\<open>body[1]\<close> and nothing else of the body: \<^verbatim>\<open>IndexError\<close> on a shorter
  tuple.  Unpacking \<^verbatim>\<open>None\<close> raises \<^verbatim>\<open>TypeError\<close>.  The pair of a comparison under the
  operators \<^verbatim>\<open>and\<close>, \<^verbatim>\<open>or\<close> or \<^verbatim>\<open>not\<close>, and a tuple of conditions under any other operator,
  do not unpack the way the function expects; the model gives \<^verbatim>\<open>ValueError\<close> for them.
\<close>

fun process_condition :: "cond \<Rightarrow> error + string list"
  and process_body :: "string \<Rightarrow> body \<Rightarrow> error + string list"
where
  "process_condition (Cond op b) = process_body op b"
| "process_body op (Conds []) =
     (if op = ''and'' \<or> op = ''or'' then Inl IndexError else Inl ValueError)"
| "process_body op (Conds [l]) =
     (if op = ''and'' \<or> op = ''or''
      then (case process_condition l of Inl e \<Rightarrow> Inl e | Inr lfields \<Rightarrow> Inl IndexError)
      else Inl ValueError)"
| "process_body op (Conds (l # r # rest)) =
     (if op = ''and'' \<or> op = ''or''
      then (case process_condition l of
              Inl e \<Rightarrow> Inl e
            | Inr lfields \<Rightarrow>
                (case process_condition r of
                   Inl e \<Rightarrow> Inl e
                 | Inr rfields \<Rightarrow> Inr (lfields @ rfields)))
      else Inl ValueError)"
| "process_body op (Inner None) = (if op = ''not'' then Inl TypeError else Inl ValueError)"
| "process_body op (Inner (Some c)) =
     (if op = ''not'' then process_condition c else Inl ValueError)"
| "process_body op (Stmt col v) =
     (if op = ''and'' \<or> op = ''or'' \<or> op = ''not'' then Inl ValueError else Inr [col])"

subsection \<open>Transitive joins\<close>

text \<open>
  \<^verbatim>\<open>_id_path\<close> and \<^verbatim>\<open>_transitive_join\<close> use the tables and the schema of
  \<^verbatim>\<open>delphin.itsdb\<close> through a few operations, which are the fields of \<open>itsdb\<close>:
  \<^verbatim>\<open>table.name\<close>, \<^verbatim>\<open>table.fields.keys()\<close>, \<^verbatim>\<open>rels.find(key)\<close>, \<^verbatim>\<open>rels[table].keys()\<close>,
  \<^verbatim>\<open>ts[name]\<close> and \<^verbatim>\<open>itsdb.join(table1, table2, how=how)\<close>.
\<close>

record 't itsdb =
  table_name :: "'t \<Rightarrow> string"
  table_keys :: "'t \<Rightarrow> string list"
  find :: "string \<Rightarrow> string list"
  relation_keys :: "string \<Rightarrow> string list"
  get_table :: "string \<Rightarrow> error + 't"
  join_tables :: "'t \<Rightarrow> 't \<Rightarrow> string \<Rightarrow> error + 't"

type_synonym step = "string \<times> string"

text \<open>
  The two inner loops of \<^verbatim>\<open>_id_path\<close> for one path that does not end in a key of the
  target: every table that defines the last key and was not visited is marked visited,
  and when it has more than one key the path is extended by each of its keys that is
  not yet a step of the path.  The source iterates over a set of tables, in no
  specified order; the model takes them in the order of \<^verbatim>\<open>rels.find\<close>.
\<close>

fun expand_path ::
    "'t itsdb \<Rightarrow> step list \<Rightarrow> string list \<Rightarrow> step list list \<times> string set
      \<Rightarrow> step list list \<times> string set" where
  "expand_path db path [] (newpaths, visited) = (newpaths, visited)"
| "expand_path db path (tbl # tbls) (newpaths, visited) =
     (let keys = relation_keys db tbl
      in expand_path db path tbls
           (if length keys > 1
            then newpaths @ map (\<lambda>key. path @ [(tbl, key)])
                                (filter (\<lambda>key. (tbl, key) \<notin> set path) keys)
            else newpaths,
            insert tbl visited))"

text \<open>
  The loop over the paths of one round: \<open>Inl path\<close> when a path ends in a key of the
  target, otherwise the new paths and the tables visited.
\<close>

fun scan_paths ::
    "'t itsdb \<Rightarrow> string set \<Rightarrow> step list list \<Rightarrow> step list list \<times> string set
      \<Rightarrow> step list + (step list list \<times> string set)" where
  "scan_paths db tgtkeys [] acc = Inr acc"
| "scan_paths db tgtkeys (path # paths) (newpaths, visited) =
     (if snd (last path) \<in> tgtkeys then Inl path
      else scan_paths db tgtkeys paths
             (expand_path db path
                (filter (\<lambda>tbl. tbl \<notin> visited) (remdups (find db (snd (last path)))))
                (newpaths, visited)))"

text \<open>
  The loop \<^verbatim>\<open>while True\<close>.  The result is \<open>Some (Some path)\<close> when a path is returned and
  \<open>Some None\<close> when the loop is left by \<^verbatim>\<open>break\<close>: the function then ends without a
  \<^verbatim>\<open>return\<close>, and its value is \<^verbatim>\<open>None\<close>.
\<close>

partial_function (option) id_path_loop ::
    "'t itsdb \<Rightarrow> string set \<Rightarrow> step list list \<Rightarrow> string set \<Rightarrow> step list option option" where
  "id_path_loop db tgtkeys paths visited =
     (case scan_paths db tgtkeys paths ([], visited) of
        Inl path \<Rightarrow> Some (Some path)
      | Inr (newpaths, visited') \<Rightarrow>
          if newpaths \<noteq> [] then id_path_loop db tgtkeys newpaths visited'
          else Some None)"

definition id_path :: "'t itsdb \<Rightarrow> 't \<Rightarrow> 't \<Rightarrow> step list option option" where
  "id_path db src tgt =
     id_path_loop db (set (table_keys db tgt))
       (map (\<lambda>key. [(table_name db src, key)]) (table_keys db src))
       (set (split_on CHR ''+'' (table_name db src)))"

text \<open>
  \<^verbatim>\<open>_transitive_join\<close>.  \<^verbatim>\<open>path[1:]\<close> raises \<^verbatim>\<open>TypeError\<close> when \<^verbatim>\<open>path\<close> is \<^verbatim>\<open>None\<close>.  The
  result is \<open>None\<close> when \<^verbatim>\<open>_id_path\<close> does not return.
\<close>

fun join_intervening :: "'t itsdb \<Rightarrow> string \<Rightarrow> 't \<Rightarrow> step list \<Rightarrow> error + 't" where
  "join_intervening db how tbl [] = Inr tbl"
| "join_intervening db how tbl ((intervening, key) # steps) =
     (case get_table db intervening of
        Inl e \<Rightarrow> Inl e
      | Inr t \<Rightarrow>
          (case join_tables db tbl t how of
             Inl e \<Rightarrow> Inl e
           | Inr tbl' \<Rightarrow> join_intervening db how tbl' steps))"

definition transitive_join ::
    "'t itsdb \<Rightarrow> 't option \<Rightarrow> 't \<Rightarrow> string \<Rightarrow> (error + 't) option" where
  "transitive_join db tab1 tab2 how =
     (case tab1 of
        None \<Rightarrow> Some (Inr tab2)
      | Some t1 \<Rightarrow>
          (case id_path db t1 tab2 of
             None \<Rightarrow> None
           | Some None \<Rightarrow> Some (Inl TypeError)
           | Some (Some path) \<Rightarrow>
               (case join_intervening db how t1 (tl path) of
                  Inl e \<Rightarrow> Some (Inl e)
                | Inr tbl \<Rightarrow> Some (join_tables db tbl tab2 how))))"

subsection \<open>Example data\<close>

text \<open>
  The tokens that \<^verbatim>\<open>_lex\<close> yields for the query
  \<^verbatim>\<open>* from item where i-id = 1 and i-wf = 2 and i-length = 3\<close>, to which it appends a full
  stop, and the condition with three conjuncts.
\<close>

definition three_conjuncts :: "token list" where
  "three_conjuncts =
     [(1, ''*'', 1), (1, ''from'', 1), (10, ''item'', 1), (1, ''where'', 1),
      (10, ''i-id'', 1), (2, ''='', 1), (9, ''1'', 1), (2, ''and'', 1),
      (10, ''i-wf'', 1), (2, ''='', 1), (9, ''2'', 1), (2, ''and'', 1),
      (10, ''i-length'', 1), (2, ''='', 1), (9, ''3'', 1), (1, ''.'', 1)]"

definition three_conjuncts_tree :: cond where
  "three_conjuncts_tree =
     Cond ''and'' (Conds [Cond ''=='' (Stmt ''i-id'' (LInt 1)),
                          Cond ''=='' (Stmt ''i-wf'' (LInt 2)),
                          Cond ''=='' (Stmt ''i-length'' (LInt 3))])"

text \<open>
  A database of three tables, each table standing for itself by its name: \<^verbatim>\<open>item\<close> with
  the key \<^verbatim>\<open>i-id\<close>, \<^verbatim>\<open>parse\<close> with the keys \<^verbatim>\<open>parse-id\<close>, \<^verbatim>\<open>run-id\<close> and \<^verbatim>\<open>i-id\<close>, and
  \<^verbatim>\<open>fold\<close> with the key \<^verbatim>\<open>fold-id\<close>, which no other table has.
\<close>

definition example_keys :: "string \<Rightarrow> string list" where
  "example_keys t =
     (if t = ''item'' then [''i-id'']
      else if t = ''parse'' then [''parse-id'', ''run-id'', ''i-id'']
      else if t = ''fold'' then [''fold-id'']
      else [])"

definition example_db :: "string itsdb" where
  "example_db =
     \<lparr> table_name = (\<lambda>t. t),
       table_keys = example_keys,
       find = (\<lambda>k. filter (\<lambda>t. k \<in> set (example_keys t)) [''item'', ''parse'', ''fold'']),
       relation_keys = example_keys,
       get_table = (\<lambda>t. if t \<in> {''item'', ''parse'', ''fold''} then Inr t else Inl KeyError),
       join_tables = (\<lambda>a b how. Inr (a @ ''+'' @ b)) \<rparr>"


section \<open>Properties\<close>

subsection \<open>Escaping (C2)\<close>

text \<open>
  C2.  The claim is that \<open>unescape (escape t) = t\<close> for every text \<open>t\<close> that does not
  end in an escape artifact.  The text of the four characters \<open>a\<close>, backslash, \<open>n\<close>,
  \<open>b\<close> ends in an ordinary letter, and its escaped form is read back as the three
  characters \<open>a\<close>, line feed, \<open>b\<close>: \<open>escape\<close> doubles the backslash, and \<open>unescape\<close>,
  having undone the doubling first, takes the restored backslash and the \<open>n\<close> after it
  for the escape sequence of a line feed.
\<close>

theorem unescape_escape_backslash_n:
  "escape [CHR ''a'', backslash, CHR ''n'', CHR ''b'']
     = [CHR ''a'', backslash, backslash, CHR ''n'', CHR ''b'']
   \<and> unescape (escape [CHR ''a'', backslash, CHR ''n'', CHR ''b''])
     = [CHR ''a'', newline, CHR ''b'']
   \<and> unescape (escape [CHR ''a'', backslash, CHR ''n'', CHR ''b''])
     \<noteq> [CHR ''a'', backslash, CHR ''n'', CHR ''b'']"
  by (simp add: escape_def unescape_def str_replace_def FIELD_DELIMITER_def)

subsection \<open>Field defaults (C9)\<close>

text \<open>
  C9, as stated: the default of every field that is not an integer field is the empty
  string.  This fails for a string field whose name is in the table of coded
  attributes: the default of a \<^verbatim>\<open>:string\<close> field named \<^verbatim>\<open>i-wf\<close> is \<^verbatim>\<open>1\<close>.
\<close>

theorem default_non_integer_counterexample:
  "\<not> (\<forall>nm dt fl cm. dt \<noteq> '':integer'' \<longrightarrow> default (Field_init nm dt fl cm) = [])"
proof
  assume "\<forall>nm dt fl cm. dt \<noteq> '':integer'' \<longrightarrow> default (Field_init nm dt fl cm) = []"
  then have "default (Field_init ''i-wf'' '':string'' None None) = []"
    by simp
  then show False
    by (simp add: Field_init_def TSDB_CODED_ATTRIBUTES_def)
qed

text \<open>
  C9, amended: the default of a constructed field is the entry of the table of coded
  attributes when the field's name is in the table, whatever the datatype; otherwise it
  is \<^verbatim>\<open>-1\<close> for an integer field and the empty string for any other field.  The table
  maps \<^verbatim>\<open>i-wf\<close> and \<^verbatim>\<open>i-difficulty\<close> to \<^verbatim>\<open>1\<close> and \<^verbatim>\<open>polarity\<close> to \<^verbatim>\<open>-1\<close>, and nothing
  else.
\<close>

theorem Field_default:
  "(nm = ''i-wf'' \<or> nm = ''i-difficulty'' \<longrightarrow> default (Field_init nm dt fl cm) = ''1'')
   \<and> (nm = ''polarity'' \<longrightarrow> default (Field_init nm dt fl cm) = ''-1'')
   \<and> (nm \<noteq> ''i-wf'' \<and> nm \<noteq> ''i-difficulty'' \<and> nm \<noteq> ''polarity'' \<longrightarrow>
        (dt = '':integer'' \<longrightarrow> default (Field_init nm dt fl cm) = ''-1'')
        \<and> (dt \<noteq> '':integer'' \<longrightarrow> default (Field_init nm dt fl cm) = []))"
  by (simp add: Field_init_def TSDB_CODED_ATTRIBUTES_def)

theorem Field_default_witness:
  "default (Field_init ''i-wf'' '':string'' None None) = ''1''
   \<and> default (Field_init ''polarity'' '':integer'' None None) = ''-1''
   \<and> default (Field_init ''i-id'' '':integer'' (Some ['':key'']) None) = ''-1''
   \<and> default (Field_init ''i-input'' '':string'' None None) = []"
  using Field_default [of "''i-wf''" "'':string''" None None]
        Field_default [of "''polarity''" "'':integer''" None None]
        Field_default [of "''i-id''" "'':integer''" "Some ['':key'']" None]
        Field_default [of "''i-input''" "'':string''" None None]
  by simp

subsection \<open>Errors of the schema parser (C7)\<close>

text \<open>
  C7.  The claim is that a schema text with a non-blank line that is neither a table
  header nor a well-formed field line makes the parser raise the schema error, and no
  other kind of failure.  In the text of the two lines \<^verbatim>\<open>item:\<close> and \<^verbatim>\<open>  i-id\<close> the second
  line names a field and gives no datatype: the parser does not raise the schema error,
  it fails with \<^verbatim>\<open>AttributeError\<close>, calling \<^verbatim>\<open>split\<close> on the flags that were not matched.
  When a comment follows the name, the flags are matched as whitespace only and the
  failure is \<^verbatim>\<open>IndexError\<close>.
\<close>

theorem parse_schema_field_without_datatype:
  "parse_schema (''item:'' @ [newline] @ ''  i-id'') = Inl AttributeError
   \<and> parse_schema (''item:'' @ [newline] @ ''  i-id'') \<noteq> Inl TSDBSchemaError
   \<and> parse_schema (''item:'' @ [newline] @ ''  i-id  # c'') = Inl IndexError"
  by code_simp

subsection \<open>Condition trees (C3)\<close>

text \<open>
  C3.  The claim is that every \<^verbatim>\<open>and\<close> node and every \<^verbatim>\<open>or\<close> node of the condition tree of
  an accepted query has exactly two children.  For the query
  \<^verbatim>\<open>* from item where i-id = 1 and i-wf = 2 and i-length = 3\<close> the parser returns, whenever
  its bound is at least 4, a tree whose \<^verbatim>\<open>and\<close> node has three children; this tree is not
  one of the tagged variants, and \<^verbatim>\<open>_process_condition\<close>, which reads the first two
  children of the node only, returns the fields \<^verbatim>\<open>i-id\<close> and \<^verbatim>\<open>i-wf\<close> and not \<^verbatim>\<open>i-length\<close>.
\<close>

theorem parse_select_three_conjuncts:
  "parse_select (4 + n) P three_conjuncts =
     Return (\<lparr> querytype = ''select'', projection_of = AllColumns, tables_of = [''item''],
               where_of = Some three_conjuncts_tree \<rparr>, [(1, ''.'', 1)])
   \<and> \<not> tagged_variant three_conjuncts_tree
   \<and> process_condition three_conjuncts_tree = Inr [''i-id'', ''i-wf'']"
proof -
  have e: "4 + n = Suc (Suc (Suc (Suc n)))"
    by simp
  have i1: "int_of_str ''1'' = Some 1" and i2: "int_of_str ''2'' = Some 2"
    and i3: "int_of_str ''3'' = Some 3"
    by code_simp+
  have l: "lower ''and'' = ''and''" "lower ''.'' = ''.''"
    by code_simp+
  show ?thesis
    unfolding e
    by (simp add: parse_select_def three_conjuncts_def three_conjuncts_tree_def
          parse_select_projection_def parse_select_from_def parse_select_where_def
          bind_def peek_def next_token_def gid_of_def text_of_def expect_def
          disjunction_round_def conjunction_round_def conjunction_next_def
          parse_condition_statement_def statement_value_def wrap_conds_def i1 i2 i3 l)
qed

subsection \<open>Transitive joins without a path (C4)\<close>

text \<open>
  C4.  The claim is that, when the search finds no path between two tables, the
  transitive join makes no intermediate join and goes on to the direct join of the two
  tables.  In the code the search then returns \<^verbatim>\<open>None\<close>, and the transitive join fails
  with \<^verbatim>\<open>TypeError\<close> on \<^verbatim>\<open>path[1:]\<close> before any join: whenever \<^verbatim>\<open>_id_path\<close> ends without a
  path, the result of \<^verbatim>\<open>_transitive_join\<close> is that exception, whatever the direct join of
  the two tables would give.
\<close>

theorem transitive_join_no_path:
  "id_path db t1 t2 = Some None \<Longrightarrow> transitive_join db (Some t1) t2 how = Some (Inl TypeError)"
  by (simp add: transitive_join_def)

theorem transitive_join_no_path_witness:
  "id_path example_db ''item'' ''fold'' = Some None
   \<and> transitive_join example_db (Some ''item'') ''fold'' ''inner'' = Some (Inl TypeError)
   \<and> join_tables example_db ''item'' ''fold'' ''inner'' = Inr ''item+fold''"
proof -
  have p: "id_path example_db ''item'' ''fold'' = Some None"
    by (simp add: id_path_def id_path_loop.simps example_db_def example_keys_def)
  show ?thesis
    using transitive_join_no_path [of example_db "''item''" "''fold''" "''inner''", OF p] p
    by (simp add: example_db_def)
qed

subsection \<open>Evaluating patterns and numerals\<close>








subsection \<open>Dates (C8)\<close>











end
